theory Spec2Isabelle
  imports Complex_Main
begin

section \<open>Python values and errors\<close>

text \<open>
  The two nodes \<^verbatim>\<open>centerline_mpc/src/dist_finder_lidar.py\<close> and
  \<^verbatim>\<open>centerline_pid/src/dist_finder_lidar.py\<close> are Python 2 programs over
  floating-point numbers. A Python float is modelled as a real number or one of the
  three special values; rounding is abstracted away. Every exception the source can
  raise is a value of \<open>py_error\<close>, and a function that can raise returns
  \<open>py_error + 'a\<close>.
\<close>

datatype py_error = IndexError | ValueError | TypeError | NameError | ZeroDivisionError

datatype pyfloat = Fin real | PInf | NInf | NaN

fun isnan :: "pyfloat \<Rightarrow> bool" where
  "isnan NaN = True"
| "isnan _ = False"

fun isinf :: "pyfloat \<Rightarrow> bool" where
  "isinf PInf = True"
| "isinf NInf = True"
| "isinf _ = False"

text \<open>Python's \<^verbatim>\<open><\<close> on floats: every comparison with NaN is false.\<close>

fun flt :: "pyfloat \<Rightarrow> pyfloat \<Rightarrow> bool" where
  "flt NaN _ = False"
| "flt _ NaN = False"
| "flt (Fin a) (Fin b) = (a < b)"
| "flt (Fin a) PInf = True"
| "flt (Fin a) NInf = False"
| "flt PInf _ = False"
| "flt NInf (Fin b) = True"
| "flt NInf PInf = True"
| "flt NInf NInf = False"

definition fgt :: "pyfloat \<Rightarrow> pyfloat \<Rightarrow> bool" where
  "fgt a b = flt b a"

text \<open>Python's \<^verbatim>\<open>==\<close> on floats.\<close>

definition feq :: "pyfloat \<Rightarrow> pyfloat \<Rightarrow> bool" where
  "feq a b = (\<not> isnan a \<and> a = b)"

fun fneg :: "pyfloat \<Rightarrow> pyfloat" where
  "fneg (Fin a) = Fin (- a)"
| "fneg PInf = NInf"
| "fneg NInf = PInf"
| "fneg NaN = NaN"

fun fadd :: "pyfloat \<Rightarrow> pyfloat \<Rightarrow> pyfloat" where
  "fadd NaN _ = NaN"
| "fadd _ NaN = NaN"
| "fadd (Fin a) (Fin b) = Fin (a + b)"
| "fadd (Fin a) PInf = PInf"
| "fadd (Fin a) NInf = NInf"
| "fadd PInf NInf = NaN"
| "fadd PInf _ = PInf"
| "fadd NInf PInf = NaN"
| "fadd NInf _ = NInf"

definition fsub :: "pyfloat \<Rightarrow> pyfloat \<Rightarrow> pyfloat" where
  "fsub a b = fadd a (fneg b)"

text \<open>
  Python's \<^verbatim>\<open>/\<close> on floats raises ZeroDivisionError for a zero divisor
  (HOL's \<open>x / 0\<close> would be \<open>0\<close>).
\<close>

fun fdiv :: "pyfloat \<Rightarrow> pyfloat \<Rightarrow> py_error + pyfloat" where
  "fdiv NaN (Fin b) = (if b = 0 then Inl ZeroDivisionError else Inr NaN)"
| "fdiv NaN _ = Inr NaN"
| "fdiv _ NaN = Inr NaN"
| "fdiv (Fin a) (Fin b) = (if b = 0 then Inl ZeroDivisionError else Inr (Fin (a / b)))"
| "fdiv (Fin a) PInf = Inr (Fin 0)"
| "fdiv (Fin a) NInf = Inr (Fin 0)"
| "fdiv PInf (Fin b) =
     (if b = 0 then Inl ZeroDivisionError else Inr (if 0 < b then PInf else NInf))"
| "fdiv NInf (Fin b) =
     (if b = 0 then Inl ZeroDivisionError else Inr (if 0 < b then NInf else PInf))"
| "fdiv PInf _ = Inr NaN"
| "fdiv NInf _ = Inr NaN"

text \<open>
  Subscripting a sequence, \<^verbatim>\<open>xs[i]\<close>: a negative index counts from the end, and an
  index outside \<open>[-len, len)\<close> raises IndexError.
\<close>

definition py_getitem :: "'a list \<Rightarrow> int \<Rightarrow> py_error + 'a" where
  "py_getitem xs i =
     (if 0 \<le> i \<and> i < int (length xs) then Inr (xs ! nat i)
      else if - int (length xs) \<le> i \<and> i < 0 then Inr (xs ! nat (int (length xs) + i))
      else Inl IndexError)"

text \<open>The indices at which a subscript raises IndexError.\<close>

definition outside :: "'a list \<Rightarrow> int \<Rightarrow> bool" where
  "outside xs i = (i < - int (length xs) \<or> int (length xs) \<le> i)"

section \<open>Range sanitisation: getRange\<close>

text \<open>
  \<^verbatim>\<open>range_min\<close> and \<^verbatim>\<open>range_max\<close> are read as globals by both files and bound by
  neither; they are the parameters of the model, Python floats like the beams they are
  compared with. A scan is the sequence \<^verbatim>\<open>data.ranges\<close>.
\<close>

record config =
  range_min :: pyfloat
  range_max :: pyfloat

type_synonym scan = "pyfloat list"

text \<open>
  \<^verbatim>\<open>centerline_mpc\<close>, lines 27--39:
  \<^verbatim>\<open>
  distance = data.ranges[beam_index]
  if math.isnan(distance) or distance < range_min:
      distance = 0
  if math.isinf(distance) or distance > range_max:
      distance = 50
  return distance
  \<close>
\<close>

definition getRange_mpc :: "config \<Rightarrow> scan \<Rightarrow> int \<Rightarrow> py_error + pyfloat" where
  "getRange_mpc cfg data beam_index =
     (case py_getitem data beam_index of
        Inl e \<Rightarrow> Inl e
      | Inr distance \<Rightarrow>
          (let distance1 =
                 (if isnan distance \<or> flt distance (range_min cfg) then Fin 0
                  else distance);
               distance2 =
                 (if isinf distance1 \<or> fgt distance1 (range_max cfg) then Fin 50
                  else distance1)
           in Inr distance2))"

text \<open>\<^verbatim>\<open>centerline_pid\<close>, lines 26--38: the same without the \<^verbatim>\<open>math.isinf\<close> test.\<close>

definition getRange_pid :: "config \<Rightarrow> scan \<Rightarrow> int \<Rightarrow> py_error + pyfloat" where
  "getRange_pid cfg data beam_index =
     (case py_getitem data beam_index of
        Inl e \<Rightarrow> Inl e
      | Inr distance \<Rightarrow>
          (let distance1 =
                 (if isnan distance \<or> flt distance (range_min cfg) then Fin 0
                  else distance);
               distance2 =
                 (if fgt distance1 (range_max cfg) then Fin 50
                  else distance1)
           in Inr distance2))"

section \<open>The MPC variant\<close>

subsection \<open>Averaged and lateral ranges\<close>

text \<open>
  \<^verbatim>\<open>getAverageRange\<close>, lines 54--63: the loop
  \<^verbatim>\<open>for i in range(beam_index - num_aux_scans_halfed, beam_index + num_aux_scans_halfed + 1)\<close>
  adds the sanitised ranges to \<^verbatim>\<open>dist\<close> (here \<open>dist_acc\<close>), which starts at 0; an exception of
  \<^verbatim>\<open>getRange\<close> ends it. The sum is then divided by
  \<^verbatim>\<open>2*num_aux_scans_halfed + 1\<close>.
\<close>

fun average_loop :: "config \<Rightarrow> scan \<Rightarrow> int list \<Rightarrow> pyfloat \<Rightarrow> py_error + pyfloat" where
  "average_loop cfg data [] dist_acc = Inr dist_acc"
| "average_loop cfg data (i # rest) dist_acc =
     (case getRange_mpc cfg data i of
        Inl e \<Rightarrow> Inl e
      | Inr r \<Rightarrow> average_loop cfg data rest (fadd dist_acc r))"

definition getAverageRange :: "config \<Rightarrow> scan \<Rightarrow> int \<Rightarrow> int \<Rightarrow> py_error + pyfloat" where
  "getAverageRange cfg data beam_index num_aux_scans_halfed =
     (case average_loop cfg data
             [beam_index - num_aux_scans_halfed .. beam_index + num_aux_scans_halfed]
             (Fin 0) of
        Inl e \<Rightarrow> Inl e
      | Inr dist_acc \<Rightarrow> fdiv dist_acc (Fin (of_int (2 * num_aux_scans_halfed + 1))))"

text \<open>\<^verbatim>\<open>getLateralRanges\<close>, lines 76--98: the right range first, then the left one.\<close>

definition getLateralRanges_mpc :: "config \<Rightarrow> scan \<Rightarrow> py_error + pyfloat list" where
  "getLateralRanges_mpc cfg data =
     (case getAverageRange cfg data 180 2 of
        Inl e \<Rightarrow> Inl e
      | Inr range_right \<Rightarrow>
          (case getAverageRange cfg data 900 2 of
             Inl e \<Rightarrow> Inl e
           | Inr range_left \<Rightarrow> Inr [range_right, range_left]))"

subsection \<open>The minimum range\<close>

text \<open>
  \<^verbatim>\<open>get_minimum_range\<close>, lines 104--118. The \<^verbatim>\<open>for\<close> loop keeps the running
  minimum, starting from 1000.0 and replacing it on \<^verbatim>\<open>r < min_range\<close>
  (\<open>running_minimum\<close> is the value of \<^verbatim>\<open>min_range\<close> after the loop, lines 107--112);
  \<^verbatim>\<open>ranges_scan.index(min_range)\<close> is the first position whose element equals the
  minimum and raises ValueError when there is none.
\<close>

fun minimum_loop :: "scan \<Rightarrow> pyfloat \<Rightarrow> pyfloat" where
  "minimum_loop [] min_range = min_range"
| "minimum_loop (r # rest) min_range =
     minimum_loop rest (if flt r min_range then r else min_range)"

fun tuple_index :: "scan \<Rightarrow> pyfloat \<Rightarrow> py_error + nat" where
  "tuple_index [] v = Inl ValueError"
| "tuple_index (r # rest) v =
     (if feq r v then Inr 0
      else (case tuple_index rest v of Inl e \<Rightarrow> Inl e | Inr i \<Rightarrow> Inr (Suc i)))"

text \<open>
  The function ends with \<^verbatim>\<open>ret_list.append(min_range, min_index)\<close> and has no
  \<^verbatim>\<open>return\<close>. \<^verbatim>\<open>list.append\<close> takes exactly one argument and raises TypeError
  otherwise; a function that runs off its end returns \<^verbatim>\<open>None\<close>, here the value
  \<open>Inr None\<close>.
\<close>

datatype pyval = PyFloat pyfloat | PyInt int

definition list_append :: "'a list \<Rightarrow> 'a list \<Rightarrow> py_error + 'a list" where
  "list_append xs args = (case args of [a] \<Rightarrow> Inr (xs @ [a]) | _ \<Rightarrow> Inl TypeError)"

definition running_minimum :: "scan \<Rightarrow> pyfloat" where
  "running_minimum ranges_scan = minimum_loop ranges_scan (Fin 1000)"

definition get_minimum_range :: "scan \<Rightarrow> py_error + pyval list option" where
  "get_minimum_range data =
     (let ranges_scan = data;
          min_range = running_minimum ranges_scan
      in case tuple_index ranges_scan min_range of
           Inl e \<Rightarrow> Inl e
         | Inr min_index \<Rightarrow>
             (case list_append [] [PyFloat min_range, PyInt (int min_index)] of
                Inl e \<Rightarrow> Inl e
              | Inr ret_list \<Rightarrow> Inr None))"

subsection \<open>Angular overflow\<close>






subsection \<open>The callback\<close>

text \<open>
  \<^verbatim>\<open>callback\<close>, lines 124--176. The global \<^verbatim>\<open>timestamp_last_message\<close> is passed
  in and returned; the two readings of \<^verbatim>\<open>rospy.Time.now()\<close> are the inputs
  \<open>now1\<close> and \<open>now2\<close>. The result is the new timestamp and either the exception
  that ended the call or the message handed to \<^verbatim>\<open>pub.publish\<close>.

  Line 140, \<^verbatim>\<open>R = ranges_list(0)\<close>, calls a list. A list is not callable, so Python
  raises TypeError there on every run that gets past \<^verbatim>\<open>getLateralRanges\<close>, and lines
  141--176 are never reached.
\<close>

record pose =
  msg_x :: real
  msg_y :: pyfloat
  msg_psi :: real
  msg_v :: real
  msg_ts :: real

definition call_list :: "'a list \<Rightarrow> int \<Rightarrow> py_error + 'a" where
  "call_list f arg = Inl TypeError"

definition callback_mpc ::
  "config \<Rightarrow> real option \<Rightarrow> real \<Rightarrow> real \<Rightarrow> scan \<Rightarrow> real option \<times> (py_error + pose)" where
  "callback_mpc cfg timestamp_last_message now1 now2 data =
     (let ts = (case timestamp_last_message of None \<Rightarrow> 0.01 | Some t \<Rightarrow> now1 - t);
          timestamp_new = Some now2
      in (timestamp_new,
          case getLateralRanges_mpc cfg data of
            Inl e \<Rightarrow> Inl e
          | Inr ranges_list \<Rightarrow>
              (case call_list ranges_list 0 of
                 Inl e \<Rightarrow> Inl e
               | Inr R \<Rightarrow> Inl TypeError)))"

section \<open>The PID variant\<close>

text \<open>
  The file \<^verbatim>\<open>centerline_pid/src/dist_finder_lidar.py\<close> is not accepted by the Python
  parser as it stands: the sums of lines 63--67, 73--77 and 82--86 end their lines with
  \<^verbatim>\<open>+\<close> outside any bracket, and the \<^verbatim>\<open>for\<close> of line 120 has no colon. The
  model reads these statements as the sums and the loop they spell out, and keeps every
  run-time failure of the text: a name that is never bound raises NameError, a function
  without \<^verbatim>\<open>return\<close> yields \<^verbatim>\<open>None\<close>, and calling \<^verbatim>\<open>None\<close> raises TypeError.
\<close>

subsection \<open>Lateral and forward ranges\<close>

definition add_ranges ::
  "py_error + pyfloat \<Rightarrow> py_error + pyfloat \<Rightarrow> py_error + pyfloat" where
  "add_ranges a b =
     (case a of
        Inl e \<Rightarrow> Inl e
      | Inr x \<Rightarrow> (case b of Inl e \<Rightarrow> Inl e | Inr y \<Rightarrow> Inr (fadd x y)))"

text \<open>
  \<^verbatim>\<open>getRange(data, c-2) + ... + getRange(data, c+2)\<close> followed by the division by 5,
  for \<open>c\<close> one of 180, 540 and 900. (Where all five values are the integers 0 and 50,
  Python 2 divides integers; their sum is a multiple of 50, so the quotient is the same.)
\<close>

definition five_beam_mean :: "config \<Rightarrow> scan \<Rightarrow> int \<Rightarrow> py_error + pyfloat" where
  "five_beam_mean cfg data c =
     (case add_ranges (add_ranges (add_ranges (add_ranges
             (getRange_pid cfg data (c - 2)) (getRange_pid cfg data (c - 1)))
             (getRange_pid cfg data c)) (getRange_pid cfg data (c + 1)))
             (getRange_pid cfg data (c + 2)) of
        Inl e \<Rightarrow> Inl e
      | Inr range_sum \<Rightarrow> fdiv range_sum (Fin 5))"

text \<open>
  \<^verbatim>\<open>getLateralRanges\<close>, lines 49--93: the list \<^verbatim>\<open>distance\<close> is built and the
  function ends without returning it, so the caller receives \<^verbatim>\<open>None\<close>.
\<close>

definition getLateralRanges_pid :: "config \<Rightarrow> scan \<Rightarrow> py_error + pyfloat list option" where
  "getLateralRanges_pid cfg data =
     (case five_beam_mean cfg data 180 of
        Inl e \<Rightarrow> Inl e
      | Inr range_right \<Rightarrow>
          (case five_beam_mean cfg data 540 of
             Inl e \<Rightarrow> Inl e
           | Inr range_face \<Rightarrow>
               (case five_beam_mean cfg data 900 of
                  Inl e \<Rightarrow> Inl e
                | Inr range_left \<Rightarrow>
                    (let distance = [range_right, range_face, range_left] in Inr None))))"

subsection \<open>The trend of the forward beams\<close>

text \<open>
  \<^verbatim>\<open>getRangeSequenceSign\<close>, lines 113--123:
  \<^verbatim>\<open>
  if length % 2 == 1: length = length + 1
  distances = []
  for i in range(-length/2, length/2 + 1)
      distances.append(getRange(data, beam_index + i + 1) - getRange(data, beam_index + i))
  return sum(distance)
  \<close>
  The division is Python 2's floor division of integers. The name \<^verbatim>\<open>distance\<close> of the
  last line is bound nowhere (the list is \<^verbatim>\<open>distances\<close>), so the \<^verbatim>\<open>return\<close> raises
  NameError whenever the loop has run through.
\<close>

fun differences_loop ::
  "config \<Rightarrow> scan \<Rightarrow> int \<Rightarrow> int list \<Rightarrow> pyfloat list \<Rightarrow> py_error + pyfloat list" where
  "differences_loop cfg data beam_index [] distances = Inr distances"
| "differences_loop cfg data beam_index (i # rest) distances =
     (case getRange_pid cfg data (beam_index + i + 1) of
        Inl e \<Rightarrow> Inl e
      | Inr upper \<Rightarrow>
          (case getRange_pid cfg data (beam_index + i) of
             Inl e \<Rightarrow> Inl e
           | Inr lower \<Rightarrow>
               differences_loop cfg data beam_index rest (distances @ [fsub upper lower])))"

definition getRangeSequenceSign :: "config \<Rightarrow> scan \<Rightarrow> int \<Rightarrow> int \<Rightarrow> py_error + pyfloat" where
  "getRangeSequenceSign cfg data beam_index length_arg =
     (let length_even = (if length_arg mod 2 = 1 then length_arg + 1 else length_arg)
      in case differences_loop cfg data beam_index
                [(- length_even) div 2 .. length_even div 2] [] of
           Inl e \<Rightarrow> Inl e
         | Inr distances \<Rightarrow> Inl NameError)"

subsection \<open>Angular overflow\<close>


subsection \<open>The callback\<close>

text \<open>
  \<^verbatim>\<open>callback\<close>, lines 130--194: \<^verbatim>\<open>ranges_list\<close> is the \<^verbatim>\<open>None\<close> that
  \<^verbatim>\<open>getLateralRanges\<close> yields, and line 142, \<^verbatim>\<open>R = ranges_list(0)\<close>, calls it:
  TypeError on every run that gets that far; lines 143--194 are never reached.
\<close>

record input_pid =
  pid_error :: real
  pid_vel :: real

definition callback_pid :: "config \<Rightarrow> scan \<Rightarrow> py_error + input_pid" where
  "callback_pid cfg data =
     (case getLateralRanges_pid cfg data of
        Inl e \<Rightarrow> Inl e
      | Inr ranges_list \<Rightarrow> Inl TypeError)"

section \<open>Properties of the range sanitisation\<close>

lemma getRange_mpc_finite:
  "getRange_mpc cfg data beam_index = Inr v \<Longrightarrow> \<exists>r. v = Fin r"
  by (cases "py_getitem data beam_index"; cases v)
     (auto simp add: getRange_mpc_def fgt_def Let_def split: if_splits pyfloat.splits)

text \<open>
  C9, as amended. With the same thresholds, \<^verbatim>\<open>range_max\<close> below positive infinity and
  \<^verbatim>\<open>range_min\<close> above negative infinity (every pair of finite thresholds is such),
  the two variants of \<^verbatim>\<open>getRange\<close> return the same result on every scan and beam
  index, the same exception or the same sanitised value: positive infinity then
  satisfies the comparison with \<^verbatim>\<open>range_max\<close> and negative infinity the one with
  \<^verbatim>\<open>range_min\<close>, so the missing \<^verbatim>\<open>math.isinf\<close> test changes nothing.
\<close>

theorem getRange_variants_agree:
  assumes "fgt PInf (range_max cfg)" and "flt NInf (range_min cfg)"
  shows "getRange_mpc cfg data beam_index = getRange_pid cfg data beam_index"
proof (cases "py_getitem data beam_index")
  case (Inl e)
  then show ?thesis by (simp add: getRange_mpc_def getRange_pid_def)
next
  case (Inr distance)
  with assms show ?thesis
    by (cases distance) (simp_all add: getRange_mpc_def getRange_pid_def fgt_def)
qed

theorem getRange_variants_agree_witness:
  "getRange_mpc \<lparr>range_min = Fin 0.02, range_max = Fin 30\<rparr> [PInf, NInf] 0
     = getRange_pid \<lparr>range_min = Fin 0.02, range_max = Fin 30\<rparr> [PInf, NInf] 0
   \<and> getRange_mpc \<lparr>range_min = Fin 0.02, range_max = Fin 30\<rparr> [PInf, NInf] 1
     = getRange_pid \<lparr>range_min = Fin 0.02, range_max = Fin 30\<rparr> [PInf, NInf] 1
   \<and> getRange_pid \<lparr>range_min = Fin 0.02, range_max = Fin 30\<rparr> [PInf, NInf] 0 = Inr (Fin 50)
   \<and> getRange_pid \<lparr>range_min = Fin 0.02, range_max = Fin 30\<rparr> [PInf, NInf] 1 = Inr (Fin 0)"
proof -
  let ?cfg = "\<lparr>range_min = Fin 0.02, range_max = Fin 30\<rparr>"
  have hi: "fgt PInf (range_max ?cfg)" by (simp add: fgt_def)
  have lo: "flt NInf (range_min ?cfg)" by simp
  have "getRange_mpc ?cfg [PInf, NInf] 0 = getRange_pid ?cfg [PInf, NInf] 0"
    by (rule getRange_variants_agree [OF hi lo])
  moreover have "getRange_mpc ?cfg [PInf, NInf] 1 = getRange_pid ?cfg [PInf, NInf] 1"
    by (rule getRange_variants_agree [OF hi lo])
  moreover have "getRange_pid ?cfg [PInf, NInf] 0 = Inr (Fin 50)"
    by (simp add: getRange_pid_def py_getitem_def fgt_def)
  moreover have "getRange_pid ?cfg [PInf, NInf] 1 = Inr (Fin 0)"
    by (simp add: getRange_pid_def py_getitem_def fgt_def)
  ultimately show ?thesis by blast
qed

text \<open>
  C9 as stated fails for thresholds that are not finite. With \<^verbatim>\<open>range_max\<close> positive
  infinity, \<^verbatim>\<open>inf > range_max\<close> is false: the MPC variant still substitutes 50 for a
  beam of positive infinity, the PID variant returns the infinity. With \<^verbatim>\<open>range_min\<close>
  negative infinity a beam of negative infinity is not below it: the MPC variant
  returns 50, the PID variant the negative infinity.
\<close>

theorem getRange_variants_differ:
  "getRange_mpc \<lparr>range_min = Fin 0.02, range_max = PInf\<rparr> [PInf] 0 = Inr (Fin 50)
   \<and> getRange_pid \<lparr>range_min = Fin 0.02, range_max = PInf\<rparr> [PInf] 0 = Inr PInf
   \<and> getRange_mpc \<lparr>range_min = NInf, range_max = Fin 30\<rparr> [NInf] 0 = Inr (Fin 50)
   \<and> getRange_pid \<lparr>range_min = NInf, range_max = Fin 30\<rparr> [NInf] 0 = Inr NInf"
  by (simp add: getRange_mpc_def getRange_pid_def py_getitem_def fgt_def)

text \<open>
  C4, as amended. For finite thresholds with \<open>0 \<le> range_min \<le> range_max \<le> 50\<close> and a
  raw beam value \<open>v\<close> read at a valid index, both variants return 0 when \<open>v\<close> is NaN
  or below \<^verbatim>\<open>range_min\<close> (negative infinity included), 50 when \<open>v\<close> is positive
  infinity or above \<^verbatim>\<open>range_max\<close>, and \<open>v\<close> itself otherwise; the result is a finite
  number between 0 and 50.
\<close>

theorem getRange_sanitised:
  assumes "py_getitem data beam_index = Inr v"
    and "range_min cfg = Fin lo" and "range_max cfg = Fin hi"
    and "0 \<le> lo" and "lo \<le> hi" and "hi \<le> 50"
  shows "(isnan v \<or> flt v (range_min cfg) \<longrightarrow>
            getRange_mpc cfg data beam_index = Inr (Fin 0)
            \<and> getRange_pid cfg data beam_index = Inr (Fin 0))
       \<and> (v = PInf \<or> fgt v (range_max cfg) \<longrightarrow>
            getRange_mpc cfg data beam_index = Inr (Fin 50)
            \<and> getRange_pid cfg data beam_index = Inr (Fin 50))
       \<and> (\<not> isnan v \<and> \<not> flt v (range_min cfg) \<and> v \<noteq> PInf
            \<and> \<not> fgt v (range_max cfg) \<longrightarrow>
            getRange_mpc cfg data beam_index = Inr v
            \<and> getRange_pid cfg data beam_index = Inr v)
       \<and> (\<exists>r. getRange_mpc cfg data beam_index = Inr (Fin r)
            \<and> getRange_pid cfg data beam_index = Inr (Fin r) \<and> 0 \<le> r \<and> r \<le> 50)"
  using assms by (cases v) (auto simp add: getRange_mpc_def getRange_pid_def fgt_def)

theorem getRange_sanitised_witness:
  "getRange_mpc \<lparr>range_min = Fin 0.02, range_max = Fin 30\<rparr>
     [NaN, Fin 0.01, PInf, Fin 31, Fin 7] 0 = Inr (Fin 0)
   \<and> getRange_pid \<lparr>range_min = Fin 0.02, range_max = Fin 30\<rparr>
     [NaN, Fin 0.01, PInf, Fin 31, Fin 7] 1 = Inr (Fin 0)
   \<and> getRange_mpc \<lparr>range_min = Fin 0.02, range_max = Fin 30\<rparr>
     [NaN, Fin 0.01, PInf, Fin 31, Fin 7] 2 = Inr (Fin 50)
   \<and> getRange_pid \<lparr>range_min = Fin 0.02, range_max = Fin 30\<rparr>
     [NaN, Fin 0.01, PInf, Fin 31, Fin 7] 3 = Inr (Fin 50)
   \<and> getRange_pid \<lparr>range_min = Fin 0.02, range_max = Fin 30\<rparr>
     [NaN, Fin 0.01, PInf, Fin 31, Fin 7] 4 = Inr (Fin 7)"
  using
    getRange_sanitised [of "[NaN, Fin 0.01, PInf, Fin 31, Fin 7]" 0 NaN
      "\<lparr>range_min = Fin 0.02, range_max = Fin 30\<rparr>" "0.02" 30]
    getRange_sanitised [of "[NaN, Fin 0.01, PInf, Fin 31, Fin 7]" 1 "Fin 0.01"
      "\<lparr>range_min = Fin 0.02, range_max = Fin 30\<rparr>" "0.02" 30]
    getRange_sanitised [of "[NaN, Fin 0.01, PInf, Fin 31, Fin 7]" 2 PInf
      "\<lparr>range_min = Fin 0.02, range_max = Fin 30\<rparr>" "0.02" 30]
    getRange_sanitised [of "[NaN, Fin 0.01, PInf, Fin 31, Fin 7]" 3 "Fin 31"
      "\<lparr>range_min = Fin 0.02, range_max = Fin 30\<rparr>" "0.02" 30]
    getRange_sanitised [of "[NaN, Fin 0.01, PInf, Fin 31, Fin 7]" 4 "Fin 7"
      "\<lparr>range_min = Fin 0.02, range_max = Fin 30\<rparr>" "0.02" 30]
  by (simp add: py_getitem_def fgt_def)

text \<open>
  C4 as stated fails at negative infinity: the value is infinite, and both variants
  return 0 for it, not the substitute 50.
\<close>

theorem getRange_negative_infinity:
  "isinf NInf
   \<and> getRange_mpc \<lparr>range_min = Fin 0.02, range_max = Fin 30\<rparr> [NInf] 0 = Inr (Fin 0)
   \<and> getRange_pid \<lparr>range_min = Fin 0.02, range_max = Fin 30\<rparr> [NInf] 0 = Inr (Fin 0)
   \<and> Fin 0 \<noteq> Fin 50"
  by (simp add: getRange_mpc_def getRange_pid_def py_getitem_def fgt_def)

section \<open>Properties of the angle normalisation\<close>















section \<open>Properties of the minimum search\<close>

lemma flt_irrefl: "\<not> flt a a"
  by (cases a) simp_all

lemma flt_below: "\<not> flt x m \<Longrightarrow> flt r m \<Longrightarrow> \<not> flt x r"
  by (cases x; cases m; cases r) simp_all

lemma flt_antisym: "\<not> isnan a \<Longrightarrow> \<not> isnan b \<Longrightarrow> \<not> flt a b \<Longrightarrow> \<not> flt b a \<Longrightarrow> a = b"
  by (cases a; cases b) simp_all

lemma minimum_loop_choice: "minimum_loop rs m = m \<or> minimum_loop rs m \<in> set rs"
proof (induction rs arbitrary: m)
  case Nil
  then show ?case by simp
next
  case (Cons r rs)
  from Cons [of "if flt r m then r else m"] show ?case
    by (auto split: if_splits)
qed

lemma minimum_loop_not_nan: "\<not> isnan m \<Longrightarrow> \<not> isnan (minimum_loop rs m)"
proof (induction rs arbitrary: m)
  case Nil
  then show ?case by simp
next
  case (Cons r rs)
  have "\<not> isnan (if flt r m then r else m)"
    using Cons.prems by (cases r) simp_all
  then show ?case using Cons.IH by simp
qed

lemma minimum_loop_below: "\<not> flt x m \<Longrightarrow> \<not> flt x (minimum_loop rs m)"
proof (induction rs arbitrary: m)
  case Nil
  then show ?case by simp
next
  case (Cons r rs)
  have "\<not> flt x (if flt r m then r else m)"
  proof (cases "flt r m")
    case True
    then show ?thesis using flt_below [OF Cons.prems True] by simp
  next
    case False
    then show ?thesis using Cons.prems by simp
  qed
  then show ?case using Cons.IH by simp
qed

lemma minimum_loop_lower_bound: "r \<in> set rs \<Longrightarrow> \<not> flt r (minimum_loop rs m)"
proof (induction rs arbitrary: m)
  case Nil
  then show ?case by simp
next
  case (Cons a rs)
  show ?case
  proof (cases "r = a")
    case True
    have "\<not> flt a (if flt a m then a else m)"
      by (simp add: flt_irrefl)
    from minimum_loop_below [OF this] show ?thesis using True by simp
  next
    case False
    with Cons.prems have "r \<in> set rs" by simp
    then show ?thesis using Cons.IH by simp
  qed
qed

lemma minimum_loop_member:
  assumes "r \<in> set rs" and "\<not> isnan r" and "\<not> flt m r" and "\<not> isnan m"
  shows "minimum_loop rs m \<in> set rs"
proof (cases "minimum_loop rs m = m")
  case True
  have "\<not> flt r m"
    using minimum_loop_lower_bound [OF assms(1), of m] True by simp
  with assms have "r = m" by (simp add: flt_antisym)
  with assms(1) True show ?thesis by simp
next
  case False
  then show ?thesis using minimum_loop_choice [of rs m] by simp
qed

lemma tuple_index_first:
  "v \<in> set xs \<Longrightarrow> \<not> isnan v \<Longrightarrow>
   \<exists>i. tuple_index xs v = Inr i \<and> i < length xs \<and> xs ! i = v \<and> (\<forall>j<i. xs ! j \<noteq> v)"
proof (induction xs)
  case Nil
  then show ?case by simp
next
  case (Cons a xs)
  show ?case
  proof (cases "a = v")
    case True
    with Cons.prems show ?thesis by (simp add: feq_def)
  next
    case False
    with Cons.prems have "v \<in> set xs" by simp
    with Cons obtain i where i: "tuple_index xs v = Inr i" "i < length xs" "xs ! i = v"
      "\<forall>j<i. xs ! j \<noteq> v" by blast
    have "\<forall>j<Suc i. (a # xs) ! j \<noteq> v"
      using False i(4) by (simp add: nth_Cons split: nat.splits)
    with False i show ?thesis by (simp add: feq_def)
  qed
qed

lemma tuple_index_absent: "v \<notin> set xs \<Longrightarrow> tuple_index xs v = Inl ValueError"
  by (induction xs) (auto simp add: feq_def)

lemma tuple_index_error: "tuple_index xs v = Inl e \<Longrightarrow> e = ValueError"
  by (induction xs arbitrary: e) (auto split: if_splits sum.splits)

lemma get_minimum_range_raises:
  "get_minimum_range data = Inl ValueError \<or> get_minimum_range data = Inl TypeError"
proof (cases "tuple_index data (running_minimum data)")
  case (Inl e)
  then show ?thesis
    using tuple_index_error [OF Inl] by (simp add: get_minimum_range_def)
next
  case (Inr i)
  then show ?thesis by (simp add: get_minimum_range_def list_append_def)
qed

lemma get_minimum_range_found:
  assumes "running_minimum data \<in> set data"
  shows "get_minimum_range data = Inl TypeError"
proof -
  have "\<not> isnan (running_minimum data)"
    unfolding running_minimum_def by (rule minimum_loop_not_nan) simp
  from tuple_index_first [OF assms this] obtain i
    where "tuple_index data (running_minimum data) = Inr i" by blast
  then show ?thesis by (simp add: get_minimum_range_def list_append_def)
qed

lemma get_minimum_range_not_found:
  assumes "running_minimum data \<notin> set data"
  shows "get_minimum_range data = Inl ValueError"
  using tuple_index_absent [OF assms] by (simp add: get_minimum_range_def)

text \<open>
  C3. On the scan \<open>[5.0, 2.0, 2.0]\<close> the loop finds the minimum 2.0 and the lookup its
  first index 1, and \<^verbatim>\<open>get_minimum_range\<close> then ends in TypeError instead of returning
  them: line 118 calls \<^verbatim>\<open>append\<close> with two arguments, and no \<^verbatim>\<open>return\<close> follows.
\<close>

theorem get_minimum_range_type_error:
  "get_minimum_range [Fin 5, Fin 2, Fin 2] = Inl TypeError"
  by (simp add: get_minimum_range_def running_minimum_def feq_def list_append_def)

text \<open>
  C10. \<^verbatim>\<open>get_minimum_range\<close> starts its running minimum at 1000.0 and replaces it only
  on a strict comparison, so the minimum it computes is the minimum of 1000.0 and the
  ranges of the scan: it is a number, it is 1000.0 or a range of the scan, it is not
  above 1000.0, and no range is below it. The function fails with ValueError exactly
  when the index lookup of that minimum in the scan does, which is exactly when no range
  of the scan is a number that is at most 1000.0. In
  particular, if the scan is non-empty and every range is strictly above 1000.0, the
  computed minimum is 1000.0, which is no element of the scan, and the lookup fails with
  ValueError rather than yielding the true minimum of the scan.
\<close>

theorem sentinel_minimum:
  "\<not> isnan (running_minimum data)
   \<and> (running_minimum data = Fin 1000 \<or> running_minimum data \<in> set data)
   \<and> \<not> flt (Fin 1000) (running_minimum data)
   \<and> (\<forall>r\<in>set data. \<not> flt r (running_minimum data))
   \<and> (get_minimum_range data = Inl ValueError
        \<longleftrightarrow> tuple_index data (running_minimum data) = Inl ValueError)
   \<and> (get_minimum_range data = Inl ValueError
        \<longleftrightarrow> (\<forall>r\<in>set data. isnan r \<or> fgt r (Fin 1000)))
   \<and> (data \<noteq> [] \<and> (\<forall>r\<in>set data. fgt r (Fin 1000)) \<longrightarrow>
        running_minimum data = Fin 1000 \<and> Fin 1000 \<notin> set data
        \<and> get_minimum_range data = Inl ValueError)"
proof -
  let ?m = "running_minimum data"
  have nan: "\<not> isnan ?m"
    unfolding running_minimum_def by (rule minimum_loop_not_nan) simp
  have choice: "?m = Fin 1000 \<or> ?m \<in> set data"
    unfolding running_minimum_def by (rule minimum_loop_choice)
  have below: "\<not> flt (Fin 1000) ?m"
    unfolding running_minimum_def by (rule minimum_loop_below) simp
  have lower: "\<forall>r\<in>set data. \<not> flt r ?m"
    unfolding running_minimum_def using minimum_loop_lower_bound by blast
  have absent: "?m \<notin> set data" if above: "\<forall>r\<in>set data. isnan r \<or> fgt r (Fin 1000)"
  proof
    assume "?m \<in> set data"
    with above nan have "fgt ?m (Fin 1000)" by blast
    with below show False by (simp add: fgt_def)
  qed
  have present: "?m \<in> set data" if some: "\<not> (\<forall>r\<in>set data. isnan r \<or> fgt r (Fin 1000))"
  proof -
    from some obtain r where r: "r \<in> set data" "\<not> isnan r" "\<not> flt (Fin 1000) r"
      by (auto simp add: fgt_def)
    from minimum_loop_member [OF r] show ?thesis
      by (simp add: running_minimum_def)
  qed
  have iff: "get_minimum_range data = Inl ValueError
      \<longleftrightarrow> (\<forall>r\<in>set data. isnan r \<or> fgt r (Fin 1000))"
  proof
    assume v: "get_minimum_range data = Inl ValueError"
    show "\<forall>r\<in>set data. isnan r \<or> fgt r (Fin 1000)"
    proof (rule ccontr)
      assume "\<not> (\<forall>r\<in>set data. isnan r \<or> fgt r (Fin 1000))"
      from get_minimum_range_found [OF present [OF this]] v show False by simp
    qed
  next
    assume "\<forall>r\<in>set data. isnan r \<or> fgt r (Fin 1000)"
    from get_minimum_range_not_found [OF absent [OF this]] show
      "get_minimum_range data = Inl ValueError" .
  qed
  have lookup: "get_minimum_range data = Inl ValueError
      \<longleftrightarrow> tuple_index data ?m = Inl ValueError"
  proof (cases "tuple_index data ?m")
    case (Inl e)
    then show ?thesis
      using tuple_index_error [OF Inl] by (simp add: get_minimum_range_def)
  next
    case (Inr i)
    then show ?thesis by (simp add: get_minimum_range_def list_append_def)
  qed
  have all: "?m = Fin 1000 \<and> Fin 1000 \<notin> set data \<and> get_minimum_range data = Inl ValueError"
    if above: "\<forall>r\<in>set data. fgt r (Fin 1000)"
  proof -
    from above have weak: "\<forall>r\<in>set data. isnan r \<or> fgt r (Fin 1000)" by blast
    from absent [OF weak] choice have keep: "?m = Fin 1000" by simp
    with absent [OF weak] have "Fin 1000 \<notin> set data" by simp
    with keep iff weak show ?thesis by simp
  qed
  from nan choice below lower lookup iff all show ?thesis by blast
qed

theorem sentinel_minimum_witness:
  "running_minimum [Fin 2000, Fin 1500] = Fin 1000
   \<and> get_minimum_range [Fin 2000, Fin 1500] = Inl ValueError
   \<and> get_minimum_range [Fin 2000, NaN] = Inl ValueError"
proof -
  have a: "[Fin 2000, Fin 1500] \<noteq> [] \<and> (\<forall>r\<in>set [Fin 2000, Fin 1500]. fgt r (Fin 1000))"
    by (simp add: fgt_def)
  have b: "\<forall>r\<in>set [Fin 2000, NaN]. isnan r \<or> fgt r (Fin 1000)"
    by (simp add: fgt_def)
  from sentinel_minimum [of "[Fin 2000, Fin 1500]"] a
  have "running_minimum [Fin 2000, Fin 1500] = Fin 1000
      \<and> get_minimum_range [Fin 2000, Fin 1500] = Inl ValueError"
    by blast
  moreover from sentinel_minimum [of "[Fin 2000, NaN]"] b
  have "get_minimum_range [Fin 2000, NaN] = Inl ValueError"
    by blast
  ultimately show ?thesis by blast
qed

section \<open>Properties of the windows and the callbacks\<close>

lemma py_getitem_outside: "outside xs i \<Longrightarrow> py_getitem xs i = Inl IndexError"
  by (auto simp add: outside_def py_getitem_def Let_def)

lemma py_getitem_inside: "\<not> outside xs i \<Longrightarrow> \<exists>v. py_getitem xs i = Inr v"
  by (auto simp add: outside_def py_getitem_def Let_def)

lemma py_getitem_wrap:
  "- int (length xs) \<le> i \<Longrightarrow> i < 0 \<Longrightarrow> py_getitem xs i = py_getitem xs (int (length xs) + i)"
  by (auto simp add: py_getitem_def Let_def)

lemma getRange_mpc_outside: "outside data i \<Longrightarrow> getRange_mpc cfg data i = Inl IndexError"
  by (simp add: getRange_mpc_def py_getitem_outside)

lemma getRange_mpc_inside: "\<not> outside data i \<Longrightarrow> \<exists>r. getRange_mpc cfg data i = Inr (Fin r)"
proof -
  assume "\<not> outside data i"
  then obtain v where v: "py_getitem data i = Inr v"
    using py_getitem_inside by blast
  then obtain w where w: "getRange_mpc cfg data i = Inr w"
    by (simp add: getRange_mpc_def Let_def)
  with getRange_mpc_finite [OF w] show ?thesis by blast
qed

lemma getRange_mpc_error:
  assumes "getRange_mpc cfg data i = Inl e"
  shows "e = IndexError"
proof (cases "outside data i")
  case True
  from getRange_mpc_outside [OF True, of cfg] assms show ?thesis by simp
next
  case False
  from getRange_mpc_inside [OF False, of cfg] assms show ?thesis by auto
qed

lemma average_loop_error: "average_loop cfg data is acc = Inl e \<Longrightarrow> e = IndexError"
proof (induction "is" arbitrary: acc)
  case Nil
  then show ?case by simp
next
  case (Cons i rest)
  show ?case
  proof (cases "getRange_mpc cfg data i")
    case (Inl e')
    with Cons.prems getRange_mpc_error [OF Inl] show ?thesis by simp
  next
    case (Inr r)
    with Cons show ?thesis by simp
  qed
qed

lemma average_loop_outside:
  "\<exists>i\<in>set is. outside data i \<Longrightarrow> average_loop cfg data is acc = Inl IndexError"
proof (induction "is" arbitrary: acc)
  case Nil
  then show ?case by simp
next
  case (Cons i rest)
  show ?case
  proof (cases "getRange_mpc cfg data i")
    case (Inl e)
    with getRange_mpc_error [OF Inl] show ?thesis by simp
  next
    case (Inr r)
    then have "\<not> outside data i"
      using getRange_mpc_outside [of data i cfg] by auto
    with Cons.prems have "\<exists>i\<in>set rest. outside data i" by simp
    from Cons.IH [OF this] Inr show ?thesis by simp
  qed
qed

lemma average_loop_inside:
  "\<forall>i\<in>set is. \<not> outside data i \<Longrightarrow> \<exists>r. average_loop cfg data is (Fin a) = Inr (Fin r)"
proof (induction "is" arbitrary: a)
  case Nil
  then show ?case by simp
next
  case (Cons i rest)
  then have "\<not> outside data i" by simp
  then obtain r where r: "getRange_mpc cfg data i = Inr (Fin r)"
    using getRange_mpc_inside by blast
  from Cons.prems have "\<forall>i\<in>set rest. \<not> outside data i" by simp
  from Cons.IH [OF this, of "a + r"] r show ?case by simp
qed

lemma getAverageRange_outside:
  assumes "\<exists>i\<in>{beam_index - k .. beam_index + k}. outside data i"
  shows "getAverageRange cfg data beam_index k = Inl IndexError"
proof -
  from assms have "\<exists>i\<in>set [beam_index - k .. beam_index + k]. outside data i"
    by simp
  from average_loop_outside [OF this] show ?thesis
    by (simp add: getAverageRange_def)
qed

lemma getAverageRange_inside:
  assumes "\<forall>i\<in>{beam_index - k .. beam_index + k}. \<not> outside data i"
  shows "\<exists>r. getAverageRange cfg data beam_index k = Inr (Fin r)"
proof -
  from assms have "\<forall>i\<in>set [beam_index - k .. beam_index + k]. \<not> outside data i"
    by simp
  from average_loop_inside [OF this, of cfg 0] obtain r
    where r: "average_loop cfg data [beam_index - k .. beam_index + k] (Fin 0) = Inr (Fin r)"
    by blast
  have "real_of_int (2 * k + 1) \<noteq> 0"
  proof
    assume "real_of_int (2 * k + 1) = 0"
    then have "2 * k + 1 = 0" by (simp only: of_int_eq_0_iff)
    then show False by presburger
  qed
  with r show ?thesis
    by (simp add: getAverageRange_def)
qed

lemma getAverageRange_error: "getAverageRange cfg data beam_index k = Inl e \<Longrightarrow> e = IndexError"
proof (cases "\<exists>i\<in>{beam_index - k .. beam_index + k}. outside data i")
  case True
  assume "getAverageRange cfg data beam_index k = Inl e"
  with getAverageRange_outside [OF True, of cfg] show ?thesis by simp
next
  case False
  assume e: "getAverageRange cfg data beam_index k = Inl e"
  from False have "\<forall>i\<in>{beam_index - k .. beam_index + k}. \<not> outside data i" by blast
  from getAverageRange_inside [OF this, of cfg] e show ?thesis by auto
qed

lemma getLateralRanges_mpc_short:
  assumes "length data < 903"
  shows "getLateralRanges_mpc cfg data = Inl IndexError"
proof (cases "getAverageRange cfg data 180 2")
  case (Inl e)
  with getAverageRange_error [OF Inl] show ?thesis
    by (simp add: getLateralRanges_mpc_def)
next
  case (Inr range_right)
  have "outside data 902"
    using assms by (simp add: outside_def)
  then have "\<exists>i\<in>{900 - 2 .. 900 + 2}. outside data i"
    by (intro bexI [of _ 902]) simp_all
  from getAverageRange_outside [OF this, of cfg] Inr show ?thesis
    by (simp add: getLateralRanges_mpc_def)
qed

lemma callback_mpc_raises:
  "snd (callback_mpc cfg stamp now1 now2 data) = Inl IndexError
   \<or> snd (callback_mpc cfg stamp now1 now2 data) = Inl TypeError"
proof (cases "getLateralRanges_mpc cfg data")
  case (Inl e)
  have "e = IndexError"
    using Inl getAverageRange_error
    by (auto simp add: getLateralRanges_mpc_def split: sum.splits)
  with Inl show ?thesis by (simp add: callback_mpc_def Let_def)
next
  case (Inr ranges_list)
  then show ?thesis by (simp add: callback_mpc_def Let_def call_list_def)
qed

lemma getRange_pid_outside: "outside data i \<Longrightarrow> getRange_pid cfg data i = Inl IndexError"
  by (simp add: getRange_pid_def py_getitem_outside)

lemma getRange_pid_inside: "\<not> outside data i \<Longrightarrow> \<exists>v. getRange_pid cfg data i = Inr v"
proof -
  assume "\<not> outside data i"
  then obtain v where v: "py_getitem data i = Inr v"
    using py_getitem_inside by blast
  then show ?thesis
    by (simp add: getRange_pid_def Let_def)
qed

lemma getRange_pid_error:
  assumes "getRange_pid cfg data i = Inl e"
  shows "e = IndexError"
proof (cases "outside data i")
  case True
  from getRange_pid_outside [OF True, of cfg] assms show ?thesis by simp
next
  case False
  from getRange_pid_inside [OF False, of cfg] assms show ?thesis by auto
qed

lemma differences_loop_error:
  "differences_loop cfg data b is acc = Inl e \<Longrightarrow> e = IndexError"
proof (induction "is" arbitrary: acc)
  case Nil
  then show ?case by simp
next
  case (Cons i rest)
  show ?case
  proof (cases "getRange_pid cfg data (b + i + 1)")
    case (Inl e')
    with Cons.prems getRange_pid_error [OF Inl] show ?thesis by simp
  next
    case upper: (Inr u)
    show ?thesis
    proof (cases "getRange_pid cfg data (b + i)")
      case (Inl e')
      with Cons.prems upper getRange_pid_error [OF Inl] show ?thesis by simp
    next
      case (Inr l)
      with Cons upper show ?thesis by simp
    qed
  qed
qed

lemma differences_loop_outside:
  "\<exists>i\<in>set is. outside data (b + i + 1) \<or> outside data (b + i) \<Longrightarrow>
   differences_loop cfg data b is acc = Inl IndexError"
proof (induction "is" arbitrary: acc)
  case Nil
  then show ?case by simp
next
  case (Cons i rest)
  show ?case
  proof (cases "getRange_pid cfg data (b + i + 1)")
    case (Inl e)
    with getRange_pid_error [OF Inl] show ?thesis by simp
  next
    case upper: (Inr u)
    show ?thesis
    proof (cases "getRange_pid cfg data (b + i)")
      case (Inl e)
      with upper getRange_pid_error [OF Inl] show ?thesis by simp
    next
      case (Inr l)
      have "\<not> outside data (b + i + 1)"
        using upper getRange_pid_outside [of data "b + i + 1" cfg] by auto
      moreover have "\<not> outside data (b + i)"
        using Inr getRange_pid_outside [of data "b + i" cfg] by auto
      ultimately have "\<exists>i\<in>set rest. outside data (b + i + 1) \<or> outside data (b + i)"
        using Cons.prems by simp
      from Cons.IH [OF this] upper Inr show ?thesis by simp
    qed
  qed
qed

lemma getRangeSequenceSign_raises:
  "getRangeSequenceSign cfg data b n = Inl IndexError
   \<or> getRangeSequenceSign cfg data b n = Inl NameError"
proof -
  let ?n = "if n mod 2 = 1 then n + 1 else n"
  show ?thesis
  proof (cases "differences_loop cfg data b [(- ?n) div 2 .. ?n div 2] []")
    case (Inl e)
    with differences_loop_error [OF Inl] show ?thesis
      by (simp add: getRangeSequenceSign_def Let_def)
  next
    case (Inr ds)
    then show ?thesis by (simp add: getRangeSequenceSign_def Let_def)
  qed
qed

lemma getRangeSequenceSign_outside:
  assumes "0 \<le> h" and "\<exists>i\<in>{b - h .. b + h + 1}. outside data i"
  shows "getRangeSequenceSign cfg data b (2 * h) = Inl IndexError"
proof -
  from assms(2) obtain i where i: "b - h \<le> i" "i \<le> b + h + 1" "outside data i"
    by auto
  have "\<exists>j\<in>set [- h .. h]. outside data (b + j + 1) \<or> outside data (b + j)"
  proof (cases "i = b - h")
    case True
    with i(3) have "outside data (b + (- h))" by simp
    moreover have "- h \<in> set [- h .. h]" using assms(1) by simp
    ultimately show ?thesis by blast
  next
    case False
    with i have "i - b - 1 \<in> set [- h .. h]" by simp
    moreover have "outside data (b + (i - b - 1) + 1)" using i(3) by simp
    ultimately show ?thesis by blast
  qed
  moreover have "(- (2 * h)) div 2 = - h"
    by presburger
  ultimately show ?thesis
    using differences_loop_outside [of "[- h .. h]" data b cfg "[]"]
    by (simp add: getRangeSequenceSign_def Let_def)
qed

lemma callback_pid_raises: "callback_pid cfg data \<noteq> Inr msg"
  by (simp add: callback_pid_def split: sum.splits)

text \<open>
  C7, as amended. Whenever the averaging window of \<^verbatim>\<open>getAverageRange\<close> or the trend
  window of \<^verbatim>\<open>getRangeSequenceSign\<close> reaches an index at or beyond the length of the
  scan, or below minus the length, the computation fails with IndexError; this includes
  every window on the empty scan, for which there is no error of its own. The window is
  never clipped, but an index from minus the length up to \<open>-1\<close> is not an error:
  \<^verbatim>\<open>getRange\<close> reads it from the end of the scan, and a window all of whose indices
  lie between minus the length and the length yields an average. The MPC callback,
  whose windows end at index 902, fails with IndexError on every scan of fewer than 903
  beams and hands no message to the publisher; the timestamp it returns is the new one,
  as after any other call.
\<close>

theorem window_outside_scan:
  "((\<exists>i\<in>{beam_index - k .. beam_index + k}. i < - int (length data) \<or> int (length data) \<le> i)
      \<longrightarrow> getAverageRange cfg data beam_index k = Inl IndexError)
   \<and> ((\<forall>i\<in>{beam_index - k .. beam_index + k}. - int (length data) \<le> i \<and> i < int (length data))
      \<longrightarrow> (\<exists>r. getAverageRange cfg data beam_index k = Inr (Fin r)))
   \<and> (- int (length data) \<le> j \<and> j < 0
      \<longrightarrow> getRange_mpc cfg data j = getRange_mpc cfg data (int (length data) + j))
   \<and> (length data < 903
      \<longrightarrow> callback_mpc cfg stamp now1 now2 data = (Some now2, Inl IndexError))
   \<and> (0 \<le> h \<and> (\<exists>i\<in>{beam_index - h .. beam_index + h + 1}.
                    i < - int (length data) \<or> int (length data) \<le> i)
      \<longrightarrow> getRangeSequenceSign cfg data beam_index (2 * h) = Inl IndexError)"
proof -
  have a: "getAverageRange cfg data beam_index k = Inl IndexError"
    if "\<exists>i\<in>{beam_index - k .. beam_index + k}. i < - int (length data) \<or> int (length data) \<le> i"
  proof -
    from that have "\<exists>i\<in>{beam_index - k .. beam_index + k}. outside data i"
      by (simp add: outside_def)
    then show ?thesis by (rule getAverageRange_outside)
  qed
  have b: "\<exists>r. getAverageRange cfg data beam_index k = Inr (Fin r)"
    if "\<forall>i\<in>{beam_index - k .. beam_index + k}. - int (length data) \<le> i \<and> i < int (length data)"
  proof -
    from that have "\<forall>i\<in>{beam_index - k .. beam_index + k}. \<not> outside data i"
      by (auto simp add: outside_def)
    then show ?thesis by (rule getAverageRange_inside)
  qed
  have c: "getRange_mpc cfg data j = getRange_mpc cfg data (int (length data) + j)"
    if "- int (length data) \<le> j \<and> j < 0"
    using that py_getitem_wrap [of data j] by (simp add: getRange_mpc_def)
  have d: "callback_mpc cfg stamp now1 now2 data = (Some now2, Inl IndexError)"
    if "length data < 903"
    using getLateralRanges_mpc_short [OF that, of cfg] by (simp add: callback_mpc_def Let_def)
  have e: "getRangeSequenceSign cfg data beam_index (2 * h) = Inl IndexError"
    if "0 \<le> h \<and> (\<exists>i\<in>{beam_index - h .. beam_index + h + 1}.
                    i < - int (length data) \<or> int (length data) \<le> i)"
  proof -
    from that have "\<exists>i\<in>{beam_index - h .. beam_index + h + 1}. outside data i"
      by (simp add: outside_def)
    with that show ?thesis by (simp add: getRangeSequenceSign_outside)
  qed
  from a b c d e show ?thesis by blast
qed

theorem window_outside_scan_witness:
  "getAverageRange \<lparr>range_min = Fin 0.02, range_max = Fin 30\<rparr> [Fin 1, Fin 2, Fin 3] 2 1
     = Inl IndexError
   \<and> (\<exists>r. getAverageRange \<lparr>range_min = Fin 0.02, range_max = Fin 30\<rparr> [Fin 1, Fin 2, Fin 3] 1 1
         = Inr (Fin r))
   \<and> getRange_mpc \<lparr>range_min = Fin 0.02, range_max = Fin 30\<rparr> [Fin 1, Fin 2, Fin 3] (- 1)
       = getRange_mpc \<lparr>range_min = Fin 0.02, range_max = Fin 30\<rparr> [Fin 1, Fin 2, Fin 3] 2
   \<and> callback_mpc \<lparr>range_min = Fin 0.02, range_max = Fin 30\<rparr> None 5 6 []
       = (Some 6, Inl IndexError)
   \<and> getRangeSequenceSign \<lparr>range_min = Fin 0.02, range_max = Fin 30\<rparr> [Fin 1, Fin 2, Fin 3] 1 2
       = Inl IndexError"
proof -
  let ?cfg = "\<lparr>range_min = Fin 0.02, range_max = Fin 30\<rparr>"
  let ?d = "[Fin 1, Fin 2, Fin 3]"
  have out: "\<exists>i\<in>{(2::int) - 1 .. 2 + 1}. i < - int (length ?d) \<or> int (length ?d) \<le> i"
    by (rule bexI [of _ 3]) simp_all
  have inside: "\<forall>i\<in>{(1::int) - 1 .. 1 + 1}. - int (length ?d) \<le> i \<and> i < int (length ?d)"
    by simp
  have neg: "- int (length ?d) \<le> - 1 \<and> (- 1::int) < 0"
    by simp
  have short: "length ([]::scan) < 903"
    by simp
  have a: "getAverageRange ?cfg ?d 2 1 = Inl IndexError"
    using window_outside_scan [of 2 1 ?d ?cfg "- 1" None 5 6 1] out by blast
  have b: "\<exists>r. getAverageRange ?cfg ?d 1 1 = Inr (Fin r)"
    using window_outside_scan [of 1 1 ?d ?cfg "- 1" None 5 6 1] inside by blast
  have "getRange_mpc ?cfg ?d (- 1) = getRange_mpc ?cfg ?d (int (length ?d) + - 1)"
    using window_outside_scan [of 1 1 ?d ?cfg "- 1" None 5 6 1] neg by blast
  then have c: "getRange_mpc ?cfg ?d (- 1) = getRange_mpc ?cfg ?d 2"
    by simp
  have d: "callback_mpc ?cfg None 5 6 [] = (Some 6, Inl IndexError)"
    using window_outside_scan [of 1 1 "[]" ?cfg "- 1" None 5 6 1] short by blast
  have trend: "(0::int) \<le> 1 \<and> (\<exists>i\<in>{(1::int) - 1 .. 1 + 1 + 1}.
      i < - int (length ?d) \<or> int (length ?d) \<le> i)"
    by (intro conjI bexI [of _ 3]) simp_all
  have "getRangeSequenceSign ?cfg ?d 1 (2 * 1) = Inl IndexError"
    using window_outside_scan [of 1 1 ?d ?cfg "- 1" None 5 6 1] trend by blast
  then have e: "getRangeSequenceSign ?cfg ?d 1 2 = Inl IndexError"
    by simp
  from a b c d e show ?thesis by blast
qed

text \<open>
  C7 as stated fails for a window that reaches below index 0: on a scan of five beams
  the window of half-width 2 around beam 1 starts at index \<open>-1\<close>, outside the index
  bounds 0 to 4, and \<^verbatim>\<open>getAverageRange\<close> returns the mean of the last beam and the
  first four instead of failing.
\<close>

theorem window_wraps_around:
  "(1::int) - 2 < 0
   \<and> getAverageRange \<lparr>range_min = Fin 0.02, range_max = Fin 30\<rparr>
        [Fin 1, Fin 2, Fin 3, Fin 4, Fin 5] 1 2 = Inr (Fin 3)"
  by (simp add: getAverageRange_def getRange_mpc_def py_getitem_def fgt_def upto.simps)

text \<open>
  C1. On a scan of 1081 beams of 10.0 (so \<open>L = R = 10\<close> and every beam is a minimum)
  the MPC callback publishes no heading and no lateral offset: it ends in TypeError at
  line 140, \<^verbatim>\<open>R = ranges_list(0)\<close>, before the lines that compute them (149--163) are
  reached.
\<close>

theorem callback_mpc_type_error:
  "callback_mpc \<lparr>range_min = Fin 0.02, range_max = Fin 30\<rparr> None 5 6 (replicate 1081 (Fin 10))
     = (Some 6, Inl TypeError)"
  by (simp add: callback_mpc_def getLateralRanges_mpc_def getAverageRange_def
      getRange_mpc_def py_getitem_def fgt_def call_list_def upto.simps)



section \<open>Properties of the PID variant\<close>

text \<open>
  C6. On a scan of 1081 beams of 10.0, with centre 540 and length 8, every index of the
  window is valid, and \<^verbatim>\<open>getRangeSequenceSign\<close> ends in NameError instead of
  returning the sum of the differences or its sign: line 123 sums the unbound name
  \<^verbatim>\<open>distance\<close>.
\<close>

theorem getRangeSequenceSign_name_error:
  "getRangeSequenceSign \<lparr>range_min = Fin 0.02, range_max = Fin 30\<rparr> (replicate 1081 (Fin 10)) 540 8
     = Inl NameError"
  by (simp add: getRangeSequenceSign_def getRange_pid_def py_getitem_def fgt_def upto.simps)

text \<open>
  C2. On a scan of 1081 beams of 10.0 (so \<open>R = F = L = 10\<close>) the PID callback
  publishes no steering error: \<^verbatim>\<open>getLateralRanges\<close> returns nothing, and the callback
  ends in TypeError at line 142, \<^verbatim>\<open>R = ranges_list(0)\<close>, before the lines that compute
  the error (160--185) are reached.
\<close>

theorem callback_pid_type_error:
  "callback_pid \<lparr>range_min = Fin 0.02, range_max = Fin 30\<rparr> (replicate 1081 (Fin 10))
     = Inl TypeError"
  by (simp add: callback_pid_def getLateralRanges_pid_def five_beam_mean_def add_ranges_def
      getRange_pid_def py_getitem_def fgt_def)

end
